theory Spec2Isabelle
  imports Main "HOL-Library.Sublist"
begin

section \<open>JavaScript values\<close>

text \<open>
  The client of \<^verbatim>\<open>src/lib/types.d.ts\<close> (class \<^verbatim>\<open>OpenSeaAPI\<close>) reads JSON payloads
  as untyped values. A value is \<^verbatim>\<open>undefined\<close> or a JSON value; an object is the list of
  its properties. Numbers are modelled as integers: the numbers the client computes with
  are page numbers, page sizes and array lengths, all exact in a JavaScript number below
  \<open>2^53\<close>.
\<close>

datatype jsval =
    JUndefined
  | JNull
  | JBool bool
  | JNum int
  | JStr string
  | JArr "jsval list"
  | JObj "(string \<times> jsval) list"

text \<open>
  What the client can raise: \<^verbatim>\<open>new Error(message)\<close> of \<^verbatim>\<open>_handleApiResponse\<close>, the
  \<^verbatim>\<open>TypeError\<close> of reading a property of \<^verbatim>\<open>undefined\<close>/\<^verbatim>\<open>null\<close> or calling a method that
  is not there, the \<^verbatim>\<open>SyntaxError\<close> of \<^verbatim>\<open>response.json()\<close> on a malformed body, and a
  rejection that comes from a collaborator (transport, body stream, normalizer).
\<close>

datatype error =
    Error string
  | TypeError
  | SyntaxError
  | Rejected string

text \<open>Truthiness, as tested by \<^verbatim>\<open>x ? a : b\<close>, \<^verbatim>\<open>x && y\<close> and \<^verbatim>\<open>x || y\<close>.\<close>

fun truthy :: "jsval \<Rightarrow> bool" where
  "truthy JUndefined = False"
| "truthy JNull = False"
| "truthy (JBool b) = b"
| "truthy (JNum n) = (n \<noteq> 0)"
| "truthy (JStr s) = (s \<noteq> [])"
| "truthy (JArr xs) = True"
| "truthy (JObj ps) = True"

text \<open>
  Decimal rendering of a number, as a template literal or \<^verbatim>\<open>join\<close> writes it. This is
  what JavaScript prints for an integer of magnitude below \<open>10^21\<close>; from there on
  JavaScript prints the exponent form (\<^verbatim>\<open>1e+21\<close>), which the model does not follow. The
  only number the client renders from its caller is a numeric \<^verbatim>\<open>tokenId\<close> in the URL of
  \<^verbatim>\<open>getAsset\<close>.
\<close>

fun string_of_nat :: "nat \<Rightarrow> string" where
  "string_of_nat n =
     (if n < 10 then [''0123456789'' ! n]
      else string_of_nat (n div 10) @ [''0123456789'' ! (n mod 10)])"

declare string_of_nat.simps [simp del]

definition string_of_int :: "int \<Rightarrow> string" where
  "string_of_int i =
     (if i < 0 then ''-'' @ string_of_nat (nat (- i)) else string_of_nat (nat i))"

fun join_with :: "string \<Rightarrow> string list \<Rightarrow> string" where
  "join_with sep [] = []"
| "join_with sep [x] = x"
| "join_with sep (x # y # ys) = x @ sep @ join_with sep (y # ys)"

text \<open>
  \<^verbatim>\<open>ToString\<close>, the conversion a template literal \<^verbatim>\<open>`${x}`\<close> applies, and
  \<^verbatim>\<open>Array.prototype.join\<close>, which writes \<^verbatim>\<open>undefined\<close> and \<^verbatim>\<open>null\<close> elements as the
  empty string and every other element by \<^verbatim>\<open>ToString\<close>. An array converts to a string by
  joining with a comma.
\<close>

fun ToString :: "jsval \<Rightarrow> string" where
  "ToString JUndefined = ''undefined''"
| "ToString JNull = ''null''"
| "ToString (JBool b) = (if b then ''true'' else ''false'')"
| "ToString (JNum n) = string_of_int n"
| "ToString (JStr s) = s"
| "ToString (JArr xs) =
     join_with '',''
       (map (\<lambda>x. if x = JUndefined \<or> x = JNull then [] else ToString x) xs)"
| "ToString (JObj ps) = ''[object Object]''"

definition array_join :: "string \<Rightarrow> jsval list \<Rightarrow> string" where
  "array_join sep xs =
     join_with sep
       (map (\<lambda>x. if x = JUndefined \<or> x = JNull then [] else ToString x) xs)"

text \<open>
  \<^verbatim>\<open>v.join(sep)\<close> on an arbitrary value: only an array has the method; on a string,
  number, boolean or plain object the call raises \<^verbatim>\<open>TypeError\<close> (not a function), as does
  the property read on \<^verbatim>\<open>undefined\<close> or \<^verbatim>\<open>null\<close>.
\<close>

fun js_join :: "jsval \<Rightarrow> string \<Rightarrow> error + string" where
  "js_join (JArr xs) sep = Inr (array_join sep xs)"
| "js_join v sep = Inl TypeError"

text \<open>
  Reading a property \<^verbatim>\<open>v.k\<close> for the names the client reads (\<^verbatim>\<open>orders\<close>, \<^verbatim>\<open>count\<close>,
  \<^verbatim>\<open>errors\<close>, \<^verbatim>\<open>assets\<close>, \<^verbatim>\<open>bundles\<close>, \<^verbatim>\<open>estimated_count\<close>; none is a built-in member of
  arrays, strings, numbers or booleans): \<^verbatim>\<open>TypeError\<close> on \<^verbatim>\<open>undefined\<close> and \<^verbatim>\<open>null\<close>, the
  property's value on an object that has it, \<^verbatim>\<open>undefined\<close> otherwise.
\<close>

fun get_prop :: "jsval \<Rightarrow> string \<Rightarrow> error + jsval" where
  "get_prop JUndefined k = Inl TypeError"
| "get_prop JNull k = Inl TypeError"
| "get_prop (JObj ps) k = Inr (case map_of ps k of None \<Rightarrow> JUndefined | Some v \<Rightarrow> v)"
| "get_prop v k = Inr JUndefined"

text \<open>Reading \<^verbatim>\<open>v[0]\<close>.\<close>

fun index0 :: "jsval \<Rightarrow> error + jsval" where
  "index0 JUndefined = Inl TypeError"
| "index0 JNull = Inl TypeError"
| "index0 (JArr []) = Inr JUndefined"
| "index0 (JArr (x # xs)) = Inr x"
| "index0 (JStr []) = Inr JUndefined"
| "index0 (JStr (c # cs)) = Inr (JStr [c])"
| "index0 (JObj ps) = Inr (case map_of ps ''0'' of None \<Rightarrow> JUndefined | Some v \<Rightarrow> v)"
| "index0 v = Inr JUndefined"

text \<open>
  \<^verbatim>\<open>v.map(f)\<close> where \<^verbatim>\<open>f\<close> may raise: the callback runs on the elements from left to
  right and the first exception leaves the loop. A value that is not an array has no
  \<^verbatim>\<open>map\<close> method.
\<close>

fun map_result :: "('a \<Rightarrow> error + 'b) \<Rightarrow> 'a list \<Rightarrow> error + 'b list" where
  "map_result f [] = Inr []"
| "map_result f (x # xs) =
     (case f x of
        Inl e \<Rightarrow> Inl e
      | Inr y \<Rightarrow> (case map_result f xs of Inl e \<Rightarrow> Inl e | Inr ys \<Rightarrow> Inr (y # ys)))"

fun js_map :: "(jsval \<Rightarrow> error + 'b) \<Rightarrow> jsval \<Rightarrow> error + 'b list" where
  "js_map f (JArr xs) = map_result f xs"
| "js_map f v = Inl TypeError"

text \<open>\<^verbatim>\<open>v.length\<close>, read by the legacy branch of \<^verbatim>\<open>getOrders\<close>.\<close>

fun js_length :: "jsval \<Rightarrow> error + jsval" where
  "js_length JUndefined = Inl TypeError"
| "js_length JNull = Inl TypeError"
| "js_length (JArr xs) = Inr (JNum (int (length xs)))"
| "js_length (JStr s) = Inr (JNum (int (length s)))"
| "js_length (JObj ps) = Inr (case map_of ps ''length'' of None \<Rightarrow> JUndefined | Some v \<Rightarrow> v)"
| "js_length v = Inr JUndefined"

text \<open>Sequencing of steps that may raise (\<^verbatim>\<open>await\<close> of a promise that may reject).\<close>

definition and_then :: "error + 'a \<Rightarrow> ('a \<Rightarrow> error + 'b) \<Rightarrow> error + 'b" where
  "and_then r f = (case r of Inl e \<Rightarrow> Inl e | Inr x \<Rightarrow> f x)"

section \<open>The transport collaborator\<close>

text \<open>
  \<^verbatim>\<open>RequestInit\<close>: the options of a request. \<open>None\<close> is a property that is absent;
  \<open>http_method\<close> is the property \<^verbatim>\<open>method\<close>, and \<open>others\<close> holds the properties the
  client never reads (mode, credentials, ...).
\<close>

record RequestInit =
  http_method :: "string option"
  body :: "string option"
  headers :: "(string \<rightharpoonup> string) option"
  others :: "string \<rightharpoonup> jsval"

definition no_opts :: RequestInit where
  "no_opts = \<lparr>http_method = None, body = None, headers = None, others = Map.empty\<rparr>"

text \<open>What \<^verbatim>\<open>fetch(finalUrl, finalOpts)\<close> is called with.\<close>

record request =
  url :: string
  init :: RequestInit

text \<open>
  \<^verbatim>\<open>Response\<close>: the success flag, the status code, and the text of the body
  (\<open>None\<close> when reading the body rejects).
\<close>

record response =
  ok :: bool
  status :: nat
  body_text :: "string option"

text \<open>
  The functions the client calls and does not define: \<^verbatim>\<open>fetch\<close> (a rejected promise is
  \<open>Inl\<close>), \<^verbatim>\<open>JSON.parse\<close> (\<open>None\<close> when it throws), \<^verbatim>\<open>JSON.stringify\<close> (\<open>None\<close>
  when it returns \<^verbatim>\<open>undefined\<close>, as it does on \<^verbatim>\<open>undefined\<close>) and
  \<^verbatim>\<open>QueryString.stringify\<close> of the query-string package.
\<close>

record platform =
  fetch :: "request \<Rightarrow> error + response"
  JSON_parse :: "string \<Rightarrow> jsval option"
  JSON_stringify :: "jsval \<Rightarrow> string option"
  QueryString_stringify :: "(string \<rightharpoonup> jsval) \<Rightarrow> string"

definition response_text :: "response \<Rightarrow> error + string" where
  "response_text r =
     (case body_text r of None \<Rightarrow> Inl (Rejected ''body'') | Some t \<Rightarrow> Inr t)"

definition response_json :: "platform \<Rightarrow> response \<Rightarrow> error + jsval" where
  "response_json env r =
     and_then (response_text r)
       (\<lambda>t. case JSON_parse env t of None \<Rightarrow> Inl SyntaxError | Some j \<Rightarrow> Inr j)"

text \<open>\<^verbatim>\<open>${JSON.stringify(result)}\<close> inside a template literal.\<close>

definition dump :: "platform \<Rightarrow> jsval \<Rightarrow> string" where
  "dump env v = (case JSON_stringify env v of None \<Rightarrow> ''undefined'' | Some s \<Rightarrow> s)"

section \<open>The client\<close>

datatype Network = Main | Rinkeby

record OpenSeaAPIConfig =
  networkName :: "Network option"
  cfg_apiKey :: "string option"
  cfg_apiBaseUrl :: "string option"

text \<open>
  The fields of an \<^verbatim>\<open>OpenSeaAPI\<close> object. The \<^verbatim>\<open>logger\<close> callback is left out: it only
  receives debugging strings, its default returns its argument, and its result is never
  used.
\<close>

record OpenSeaAPI =
  hostUrl :: string
  apiBaseUrl :: string
  pageSize :: int
  apiKey :: "string option"

definition ORDERBOOK_VERSION :: nat where
  "ORDERBOOK_VERSION = 1"

definition API_BASE_MAINNET :: string where
  "API_BASE_MAINNET = ''https://api.opensea.io''"

definition API_BASE_RINKEBY :: string where
  "API_BASE_RINKEBY = ''https://rinkeby-api.opensea.io''"

definition SITE_HOST_MAINNET :: string where
  "SITE_HOST_MAINNET = ''https://opensea.io''"

definition SITE_HOST_RINKEBY :: string where
  "SITE_HOST_RINKEBY = ''https://rinkeby.opensea.io''"

text \<open>
  Both path prefixes are built from the orderbook version, as in the source. The version
  is an argument of the model, so that both branches of the version test can be stated;
  the build under \<^verbatim>\<open>src/\<close> has \<open>ORDERBOOK_VERSION = 1\<close>.
\<close>

definition ORDERBOOK_PATH :: "nat \<Rightarrow> string" where
  "ORDERBOOK_PATH ver = ''/wyvern/v'' @ string_of_nat ver"

definition API_PATH :: "nat \<Rightarrow> string" where
  "API_PATH ver = ''/api/v'' @ string_of_nat ver"

text \<open>\<^verbatim>\<open>config.apiBaseUrl || dflt\<close>: an absent or empty string gives the default.\<close>

definition or_default :: "string option \<Rightarrow> string \<Rightarrow> string" where
  "or_default s dflt = (case s of None \<Rightarrow> dflt | Some x \<Rightarrow> if x = [] then dflt else x)"

definition constructor :: "OpenSeaAPIConfig \<Rightarrow> OpenSeaAPI" where
  "constructor config =
     (case networkName config of
        Some Rinkeby \<Rightarrow>
          \<lparr>hostUrl = SITE_HOST_RINKEBY,
           apiBaseUrl = or_default (cfg_apiBaseUrl config) API_BASE_RINKEBY,
           pageSize = 20,
           apiKey = cfg_apiKey config\<rparr>
      | _ \<Rightarrow>
          \<lparr>hostUrl = SITE_HOST_MAINNET,
           apiBaseUrl = or_default (cfg_apiBaseUrl config) API_BASE_MAINNET,
           pageSize = 20,
           apiKey = cfg_apiKey config\<rparr>)"

subsection \<open>Response handling\<close>

text \<open>
  The \<^verbatim>\<open>try\<close> block of \<^verbatim>\<open>_handleApiResponse\<close>: \<^verbatim>\<open>result\<close> is first assigned the text
  of the body and then the parsed text. When reading the text rejects, \<^verbatim>\<open>result\<close> stays
  \<^verbatim>\<open>undefined\<close>; when \<^verbatim>\<open>JSON.parse\<close> throws, the first assignment stands and
  \<^verbatim>\<open>result\<close> is the text. The \<^verbatim>\<open>catch\<close> clause is empty.
\<close>

definition error_result :: "platform \<Rightarrow> response \<Rightarrow> jsval" where
  "error_result env response =
     (case body_text response of
        None \<Rightarrow> JUndefined
      | Some t \<Rightarrow> (case JSON_parse env t of None \<Rightarrow> JStr t | Some j \<Rightarrow> j))"

text \<open>The \<^verbatim>\<open>switch\<close> on the status code, computing \<^verbatim>\<open>errorMessage\<close>.\<close>

definition errorMessage :: "platform \<Rightarrow> nat \<Rightarrow> jsval \<Rightarrow> error + string" where
  "errorMessage env code result =
     (if code = 400 then
        (if truthy result then
           and_then (get_prop result ''errors'')
             (\<lambda>errors.
                if truthy errors then js_join errors '', ''
                else Inr (''Invalid request: '' @ dump env result))
         else Inr (''Invalid request: '' @ dump env result))
      else if code = 401 \<or> code = 403 then
        Inr (''Unauthorized. Full message was '' @ [CHR 0x27] @ dump env result @ [CHR 0x27])
      else if code = 404 then
        Inr (''Not found. Full message was '' @ [CHR 0x27] @ dump env result @ [CHR 0x27])
      else if code = 500 then
        Inr (''Internal server error. OpenSea has been alerted, but if the problem persists please contact us via Discord: https://discord.gg/ga8EJbv - full message was ''
             @ dump env result)
      else
        Inr (''status code '' @ string_of_nat code @ ''. Message: '' @ dump env result))"

definition handleApiResponse :: "platform \<Rightarrow> response \<Rightarrow> error + response" where
  "handleApiResponse env response =
     (if ok response then Inr response
      else
        and_then (errorMessage env (status response) (error_result env response))
          (\<lambda>msg. Inl (Error (''API Error: '' @ msg))))"

subsection \<open>Requests\<close>

text \<open>
  Every operation returns the request it passes to \<^verbatim>\<open>fetch\<close> together with its outcome.
  \<^verbatim>\<open>_fetch\<close>: the header object starts from the API key, when it is a non-empty string,
  and the caller's headers are spread over it.
\<close>

definition key_header :: "string option \<Rightarrow> (string \<rightharpoonup> string)" where
  "key_header k =
     (case k of
        None \<Rightarrow> Map.empty
      | Some key \<Rightarrow> if key = [] then Map.empty else [''X-API-KEY'' \<mapsto> key])"

definition api_fetch ::
  "platform \<Rightarrow> OpenSeaAPI \<Rightarrow> string \<Rightarrow> RequestInit \<Rightarrow> request \<times> (error + response)" where
  "api_fetch env api apiPath opts =
     (let finalUrl = apiBaseUrl api @ apiPath;
          finalOpts = opts\<lparr>headers :=
            Some (key_header (apiKey api) ++
                  (case headers opts of None \<Rightarrow> Map.empty | Some h \<Rightarrow> h))\<rparr>;
          req = \<lparr>url = finalUrl, init = finalOpts\<rparr>
      in (req, and_then (fetch env req) (handleApiResponse env)))"

definition get ::
  "platform \<Rightarrow> OpenSeaAPI \<Rightarrow> string \<Rightarrow> (string \<rightharpoonup> jsval) \<Rightarrow> request \<times> (error + response)" where
  "get env api apiPath query =
     (let qs = QueryString_stringify env query;
          url = apiPath @ ''?'' @ qs
      in api_fetch env api url no_opts)"

text \<open>
  \<^verbatim>\<open>post\<close>: the defaults \<^verbatim>\<open>method\<close>, \<^verbatim>\<open>body\<close> and \<^verbatim>\<open>headers\<close> come first in the object
  literal and \<^verbatim>\<open>...opts\<close> last, so a property of \<^verbatim>\<open>opts\<close> replaces the default.
\<close>

definition post ::
  "platform \<Rightarrow> OpenSeaAPI \<Rightarrow> string \<Rightarrow> jsval \<Rightarrow> RequestInit \<Rightarrow> request \<times> (error + response)" where
  "post env api apiPath body_arg opts =
     (let fetchOpts =
        \<lparr>http_method = (case http_method opts of None \<Rightarrow> Some ''POST'' | Some m \<Rightarrow> Some m),
         body = (case body opts of
                   None \<Rightarrow> (if truthy body_arg then JSON_stringify env body_arg else None)
                 | Some b \<Rightarrow> Some b),
         headers = (case headers opts of
                      None \<Rightarrow> Some [''Accept'' \<mapsto> ''application/json'',
                                    ''Content-Type'' \<mapsto> ''application/json'']
                    | Some h \<Rightarrow> Some h),
         others = others opts\<rparr>
      in api_fetch env api apiPath fetchOpts)"

text \<open>\<^verbatim>\<open>put\<close>: \<^verbatim>\<open>this.post(apiPath, body, { method: 'PUT', ...opts })\<close>.\<close>

definition put ::
  "platform \<Rightarrow> OpenSeaAPI \<Rightarrow> string \<Rightarrow> jsval \<Rightarrow> RequestInit \<Rightarrow> request \<times> (error + response)" where
  "put env api apiPath body_arg opts =
     post env api apiPath body_arg
       (opts\<lparr>http_method := (case http_method opts of None \<Rightarrow> Some ''PUT'' | Some m \<Rightarrow> Some m)\<rparr>)"

subsection \<open>Orderbook and API operations\<close>

text \<open>
  The normalizers \<^verbatim>\<open>orderFromJSON\<close>, \<^verbatim>\<open>assetFromJSON\<close>, \<^verbatim>\<open>assetBundleFromJSON\<close> and
  \<^verbatim>\<open>tokenFromJSON\<close> are imported from \<^verbatim>\<open>./utils\<close>; each operation takes its normalizer as
  an argument, a function that returns the normalized record or raises. A \<^verbatim>\<open>null\<close>
  result is \<open>None\<close>. The default arguments \<^verbatim>\<open>query = {}\<close> and \<^verbatim>\<open>page = 1\<close> are the
  caller's \<open>Map.empty\<close> and \<open>1\<close>.
\<close>

definition postOrder ::
  "nat \<Rightarrow> platform \<Rightarrow> OpenSeaAPI \<Rightarrow> (jsval \<Rightarrow> error + 'o) \<Rightarrow> jsval \<Rightarrow> request \<times> (error + 'o)" where
  "postOrder ver env api orderFromJSON order =
     (let (req, r) = post env api (ORDERBOOK_PATH ver @ ''/orders/post'') order no_opts
      in (req,
          and_then r (\<lambda>response.
          and_then (response_json env response) (\<lambda>json.
          orderFromJSON json))))"

definition getOrder ::
  "nat \<Rightarrow> platform \<Rightarrow> OpenSeaAPI \<Rightarrow> (jsval \<Rightarrow> error + 'o) \<Rightarrow> (string \<rightharpoonup> jsval) \<Rightarrow>
   request \<times> (error + 'o option)" where
  "getOrder ver env api orderFromJSON query =
     (let (req, r) = get env api (ORDERBOOK_PATH ver @ ''/orders'') query
      in (req,
          and_then r (\<lambda>response.
          if ver = 0 then
            and_then (response_json env response) (\<lambda>json.
            and_then (index0 json) (\<lambda>orderJSON.
            if truthy orderJSON then and_then (orderFromJSON orderJSON) (\<lambda>order. Inr (Some order))
            else Inr None))
          else
            and_then (response_json env response) (\<lambda>json.
            and_then (get_prop json ''orders'') (\<lambda>orders.
            and_then (index0 orders) (\<lambda>orderJSON.
            if truthy orderJSON then and_then (orderFromJSON orderJSON) (\<lambda>order. Inr (Some order))
            else Inr None))))))"

text \<open>
  \<^verbatim>\<open>getOrders\<close> returns \<^verbatim>\<open>{orders, count}\<close>, here the pair of the two. In the object
  literal the orders are computed before the count.
\<close>

definition getOrders ::
  "nat \<Rightarrow> platform \<Rightarrow> OpenSeaAPI \<Rightarrow> (jsval \<Rightarrow> error + 'o) \<Rightarrow> (string \<rightharpoonup> jsval) \<Rightarrow> int \<Rightarrow>
   request \<times> (error + 'o list \<times> jsval)" where
  "getOrders ver env api orderFromJSON query page =
     (let (req, r) =
        get env api (ORDERBOOK_PATH ver @ ''/orders'')
          (query(''limit'' \<mapsto> JNum (pageSize api),
                 ''offset'' \<mapsto> JNum ((page - 1) * pageSize api)))
      in (req,
          and_then r (\<lambda>response.
          if ver = 0 then
            and_then (response_json env response) (\<lambda>json.
            and_then (js_map orderFromJSON json) (\<lambda>orders.
            and_then (js_length json) (\<lambda>count.
            Inr (orders, count))))
          else
            and_then (response_json env response) (\<lambda>json.
            and_then (get_prop json ''orders'') (\<lambda>orders_json.
            and_then (js_map orderFromJSON orders_json) (\<lambda>orders.
            and_then (get_prop json ''count'') (\<lambda>count.
            Inr (orders, count))))))))"

definition getAsset ::
  "nat \<Rightarrow> platform \<Rightarrow> OpenSeaAPI \<Rightarrow> (jsval \<Rightarrow> error + 'a) \<Rightarrow> string \<Rightarrow> jsval \<Rightarrow>
   request \<times> (error + 'a option)" where
  "getAsset ver env api assetFromJSON tokenAddress tokenId =
     (let (req, r) =
        get env api (API_PATH ver @ ''/asset/'' @ tokenAddress @ ''/'' @ ToString tokenId)
          Map.empty
      in (req,
          and_then r (\<lambda>response.
          and_then (response_json env response) (\<lambda>json.
          if truthy json then and_then (assetFromJSON json) (\<lambda>asset. Inr (Some asset))
          else Inr None))))"

text \<open>\<^verbatim>\<open>getAssets\<close> returns \<^verbatim>\<open>{assets, estimatedCount}\<close>.\<close>

definition getAssets ::
  "nat \<Rightarrow> platform \<Rightarrow> OpenSeaAPI \<Rightarrow> (jsval \<Rightarrow> error + 'a) \<Rightarrow> (string \<rightharpoonup> jsval) \<Rightarrow> int \<Rightarrow>
   request \<times> (error + 'a list \<times> jsval)" where
  "getAssets ver env api assetFromJSON query page =
     (let (req, r) =
        get env api (API_PATH ver @ ''/assets/'')
          (query(''limit'' \<mapsto> JNum (pageSize api),
                 ''offset'' \<mapsto> JNum ((page - 1) * pageSize api)))
      in (req,
          and_then r (\<lambda>response.
          and_then (response_json env response) (\<lambda>json.
          and_then (get_prop json ''assets'') (\<lambda>assets_json.
          and_then (js_map assetFromJSON assets_json) (\<lambda>assets.
          and_then (get_prop json ''estimated_count'') (\<lambda>estimatedCount.
          Inr (assets, estimatedCount))))))))"

text \<open>\<^verbatim>\<open>getTokens\<close> returns \<^verbatim>\<open>{tokens}\<close>.\<close>

definition getTokens ::
  "nat \<Rightarrow> platform \<Rightarrow> OpenSeaAPI \<Rightarrow> (jsval \<Rightarrow> error + 't) \<Rightarrow> (string \<rightharpoonup> jsval) \<Rightarrow> int \<Rightarrow>
   request \<times> (error + 't list)" where
  "getTokens ver env api tokenFromJSON query page =
     (let (req, r) =
        get env api (API_PATH ver @ ''/tokens/'')
          (query(''limit'' \<mapsto> JNum (pageSize api),
                 ''offset'' \<mapsto> JNum ((page - 1) * pageSize api)))
      in (req,
          and_then r (\<lambda>response.
          and_then (response_json env response) (\<lambda>json.
          js_map tokenFromJSON json))))"

definition getBundle ::
  "nat \<Rightarrow> platform \<Rightarrow> OpenSeaAPI \<Rightarrow> (jsval \<Rightarrow> error + 'b) \<Rightarrow> string \<Rightarrow>
   request \<times> (error + 'b option)" where
  "getBundle ver env api assetBundleFromJSON slug =
     (let (req, r) = get env api (API_PATH ver @ ''/bundle/'' @ slug @ ''/'') Map.empty
      in (req,
          and_then r (\<lambda>response.
          and_then (response_json env response) (\<lambda>json.
          if truthy json then and_then (assetBundleFromJSON json) (\<lambda>bundle. Inr (Some bundle))
          else Inr None))))"

text \<open>\<^verbatim>\<open>getBundles\<close> returns \<^verbatim>\<open>{bundles, estimatedCount}\<close>.\<close>

definition getBundles ::
  "nat \<Rightarrow> platform \<Rightarrow> OpenSeaAPI \<Rightarrow> (jsval \<Rightarrow> error + 'b) \<Rightarrow> (string \<rightharpoonup> jsval) \<Rightarrow> int \<Rightarrow>
   request \<times> (error + 'b list \<times> jsval)" where
  "getBundles ver env api assetBundleFromJSON query page =
     (let (req, r) =
        get env api (API_PATH ver @ ''/bundles/'')
          (query(''limit'' \<mapsto> JNum (pageSize api),
                 ''offset'' \<mapsto> JNum ((page - 1) * pageSize api)))
      in (req,
          and_then r (\<lambda>response.
          and_then (response_json env response) (\<lambda>json.
          and_then (get_prop json ''bundles'') (\<lambda>bundles_json.
          and_then (js_map assetBundleFromJSON bundles_json) (\<lambda>bundles.
          and_then (get_prop json ''estimated_count'') (\<lambda>estimatedCount.
          Inr (bundles, estimatedCount))))))))"

section \<open>Observations and the specification's reading of \<^verbatim>\<open>put\<close>\<close>

text \<open>The value of header \<open>k\<close> in a set of request options, \<open>None\<close> when it is absent.\<close>

definition header_of :: "RequestInit \<Rightarrow> string \<Rightarrow> string option" where
  "header_of opts k = (case headers opts of None \<Rightarrow> None | Some h \<Rightarrow> h k)"

text \<open>
  The key that the constructor stores and \<^verbatim>\<open>_fetch\<close> accepts: the test \<^verbatim>\<open>apiKey ? ... : {}\<close>
  takes an absent key and the empty string alike as no key.
\<close>

definition configured_key :: "OpenSeaAPIConfig \<Rightarrow> string option" where
  "configured_key config =
     (case cfg_apiKey config of None \<Rightarrow> None | Some k \<Rightarrow> if k = [] then None else Some k)"

text \<open>
  \<^verbatim>\<open>put\<close> as the specification words it: \<^verbatim>\<open>post\<close> on the caller's options with the
  method overridden to \<^verbatim>\<open>'PUT'\<close>. It is compared with the source's \<open>put\<close> below.
\<close>

definition put_spec ::
  "platform \<Rightarrow> OpenSeaAPI \<Rightarrow> string \<Rightarrow> jsval \<Rightarrow> RequestInit \<Rightarrow> request \<times> (error + response)" where
  "put_spec env api apiPath body_arg opts =
     post env api apiPath body_arg (opts\<lparr>http_method := Some ''PUT''\<rparr>)"

section \<open>Example inputs\<close>

text \<open>
  Concrete collaborators for the examples: a transport that answers every request with
  one given response, and stand-ins for \<^verbatim>\<open>JSON.parse\<close>, \<^verbatim>\<open>JSON.stringify\<close> and
  \<^verbatim>\<open>QueryString.stringify\<close> that agree with the real functions on the inputs of the
  examples (body texts of the table below, values without characters to escape and
  without \<^verbatim>\<open>undefined\<close> inside, queries that hold \<^verbatim>\<open>limit\<close> and \<^verbatim>\<open>offset\<close> only).
\<close>

definition quoted :: "string \<Rightarrow> string" where
  "quoted s = [CHR 0x22] @ s @ [CHR 0x22]"

fun stub_stringify_value :: "jsval \<Rightarrow> string" where
  "stub_stringify_value JUndefined = ''null''"
| "stub_stringify_value JNull = ''null''"
| "stub_stringify_value (JBool b) = (if b then ''true'' else ''false'')"
| "stub_stringify_value (JNum n) = string_of_int n"
| "stub_stringify_value (JStr s) = quoted s"
| "stub_stringify_value (JArr xs) = ''['' @ join_with '','' (map stub_stringify_value xs) @ '']''"
| "stub_stringify_value (JObj ps) =
     ''{'' @ join_with '','' (map (\<lambda>p. quoted (fst p) @ '':'' @ stub_stringify_value (snd p)) ps) @ ''}''"

definition stub_stringify :: "jsval \<Rightarrow> string option" where
  "stub_stringify v = (if v = JUndefined then None else Some (stub_stringify_value v))"

text \<open>The body \<^verbatim>\<open>{"orders":[{}],"count":57}\<close>.\<close>

definition versioned_page_text :: string where
  "versioned_page_text = ''{'' @ quoted ''orders'' @ '':[{}],'' @ quoted ''count'' @ '':57}''"

text \<open>The body \<^verbatim>\<open>{"orders":[],"count":0}\<close>.\<close>

definition empty_page_text :: string where
  "empty_page_text = ''{'' @ quoted ''orders'' @ '':[],'' @ quoted ''count'' @ '':0}''"

text \<open>The body \<^verbatim>\<open>{"errors":["bad salt","bad side"]}\<close>.\<close>

definition errors_text :: string where
  "errors_text =
     ''{'' @ quoted ''errors'' @ '':['' @ quoted ''bad salt'' @ '','' @ quoted ''bad side'' @ '']}''"

text \<open>The body \<^verbatim>\<open>[{},{"id":1}]\<close>.\<close>

definition legacy_two_orders_text :: string where
  "legacy_two_orders_text = ''[{},{'' @ quoted ''id'' @ '':1}]''"

text \<open>The body \<^verbatim>\<open>{"orders":[{},{"id":1}],"count":57}\<close>.\<close>

definition versioned_two_orders_text :: string where
  "versioned_two_orders_text =
     ''{'' @ quoted ''orders'' @ '':[{},{'' @ quoted ''id'' @ '':1}],'' @ quoted ''count'' @ '':57}''"

text \<open>The body \<^verbatim>\<open>{"errors":"bad salt"}\<close>, whose \<^verbatim>\<open>errors\<close> is a string and not a list.\<close>

definition errors_string_text :: string where
  "errors_string_text = ''{'' @ quoted ''errors'' @ '':'' @ quoted ''bad salt'' @ ''}''"

definition stub_parse :: "string \<Rightarrow> jsval option" where
  "stub_parse s =
     (if s = ''[{}]'' then Some (JArr [JObj []])
      else if s = ''[]'' then Some (JArr [])
      else if s = ''{}'' then Some (JObj [])
      else if s = ''null'' then Some JNull
      else if s = versioned_page_text then
        Some (JObj [(''orders'', JArr [JObj []]), (''count'', JNum 57)])
      else if s = empty_page_text then
        Some (JObj [(''orders'', JArr []), (''count'', JNum 0)])
      else if s = errors_text then
        Some (JObj [(''errors'', JArr [JStr ''bad salt'', JStr ''bad side''])])
      else if s = legacy_two_orders_text then
        Some (JArr [JObj [], JObj [(''id'', JNum 1)]])
      else if s = versioned_two_orders_text then
        Some (JObj [(''orders'', JArr [JObj [], JObj [(''id'', JNum 1)]]), (''count'', JNum 57)])
      else if s = errors_string_text then
        Some (JObj [(''errors'', JStr ''bad salt'')])
      else if s = ''{ }'' then Some (JObj [])
      else None)"

text \<open>
  A normalizer for the examples: it marks the JSON record, so that a normalized order is
  told apart from the record it comes from, and it raises on a value that is not an
  object.
\<close>

fun example_normalizer :: "jsval \<Rightarrow> error + (string \<times> jsval) list" where
  "example_normalizer (JObj ps) = Inr ((''normalized'', JBool True) # ps)"
| "example_normalizer v = Inl (Rejected ''parse error'')"

definition stub_query :: "(string \<rightharpoonup> jsval) \<Rightarrow> string" where
  "stub_query q =
     (case q ''limit'' of
        None \<Rightarrow> []
      | Some l \<Rightarrow>
          (case q ''offset'' of
             None \<Rightarrow> []
           | Some off \<Rightarrow> ''limit='' @ ToString l @ ''&offset='' @ ToString off))"

definition example_platform :: "response \<Rightarrow> platform" where
  "example_platform resp =
     \<lparr>fetch = (\<lambda>req. Inr resp),
      JSON_parse = stub_parse,
      JSON_stringify = stub_stringify,
      QueryString_stringify = stub_query\<rparr>"

text \<open>A client constructed for the main network with the given API key.\<close>

definition example_api :: "string option \<Rightarrow> OpenSeaAPI" where
  "example_api k = constructor \<lparr>networkName = None, cfg_apiKey = k, cfg_apiBaseUrl = None\<rparr>"

definition success_response :: "string \<Rightarrow> response" where
  "success_response t = \<lparr>ok = True, status = 200, body_text = Some t\<rparr>"

definition failure_response :: "nat \<Rightarrow> string \<Rightarrow> response" where
  "failure_response code t = \<lparr>ok = False, status = code, body_text = Some t\<rparr>"

section \<open>Basic facts\<close>

lemma and_then_Inl [simp]: "and_then (Inl e) f = Inl e"
  by (simp add: and_then_def)

lemma and_then_Inr [simp]: "and_then (Inr x) f = f x"
  by (simp add: and_then_def)

lemmas op_defs = get_def api_fetch_def Let_def split_def response_json_def response_text_def
  handleApiResponse_def

lemmas fixture_defs = example_platform_def example_api_def success_response_def
  failure_response_def stub_parse_def stub_stringify_def stub_query_def constructor_def
  quoted_def or_default_def API_BASE_MAINNET_def ORDERBOOK_PATH_def API_PATH_def
  string_of_int_def string_of_nat.simps versioned_page_text_def empty_page_text_def
  errors_text_def legacy_two_orders_text_def versioned_two_orders_text_def
  errors_string_text_def

text \<open>
  \<open>map_result\<close> returns a list exactly when the callback returns on every element, and
  then the list holds, position by position, what the callback returned; otherwise it
  raises.
\<close>

lemma map_result_Inr_iff:
  "map_result f xs = Inr ys \<longleftrightarrow> list_all2 (\<lambda>x y. f x = Inr y) xs ys"
proof (induction xs arbitrary: ys)
  case Nil
  then show ?case by auto
next
  case (Cons x xs)
  show ?case
  proof (cases "f x")
    case (Inl e)
    then show ?thesis by (auto simp add: list_all2_Cons1)
  next
    case (Inr y)
    show ?thesis
    proof (cases "map_result f xs")
      case (Inl e)
      with Inr Cons.IH show ?thesis
        by (auto simp add: list_all2_Cons1)
    next
      case r: (Inr zs)
      with Inr Cons.IH show ?thesis
        by (auto simp add: list_all2_Cons1)
    qed
  qed
qed

lemma map_result_total:
  assumes "\<forall>x \<in> set xs. f x = Inr (g x)"
  shows "map_result f xs = Inr (map g xs)"
  using assms by (simp add: map_result_Inr_iff list_all2_conv_all_nth)

text \<open>The request of each operation is the request of the \<open>get\<close> or \<open>post\<close> it makes.\<close>

lemma fst_ops:
  "fst (postOrder ver env api f1 order) =
     fst (post env api (ORDERBOOK_PATH ver @ ''/orders/post'') order no_opts)"
  "fst (getOrder ver env api f2 query) = fst (get env api (ORDERBOOK_PATH ver @ ''/orders'') query)"
  "fst (getOrders ver env api f3 query page) =
     fst (get env api (ORDERBOOK_PATH ver @ ''/orders'')
            (query(''limit'' \<mapsto> JNum (pageSize api), ''offset'' \<mapsto> JNum ((page - 1) * pageSize api))))"
  "fst (getAsset ver env api f4 tokenAddress tokenId) =
     fst (get env api (API_PATH ver @ ''/asset/'' @ tokenAddress @ ''/'' @ ToString tokenId) Map.empty)"
  "fst (getAssets ver env api f5 query page) =
     fst (get env api (API_PATH ver @ ''/assets/'')
            (query(''limit'' \<mapsto> JNum (pageSize api), ''offset'' \<mapsto> JNum ((page - 1) * pageSize api))))"
  "fst (getTokens ver env api f6 query page) =
     fst (get env api (API_PATH ver @ ''/tokens/'')
            (query(''limit'' \<mapsto> JNum (pageSize api), ''offset'' \<mapsto> JNum ((page - 1) * pageSize api))))"
  "fst (getBundle ver env api f7 slug) =
     fst (get env api (API_PATH ver @ ''/bundle/'' @ slug @ ''/'') Map.empty)"
  "fst (getBundles ver env api f8 query page) =
     fst (get env api (API_PATH ver @ ''/bundles/'')
            (query(''limit'' \<mapsto> JNum (pageSize api), ''offset'' \<mapsto> JNum ((page - 1) * pageSize api))))"
  by (simp_all add: postOrder_def getOrder_def getOrders_def getAsset_def getAssets_def
        getTokens_def getBundle_def getBundles_def split_def Let_def)

text \<open>A failed response always raises; with status 404 the message is the "Not found" one.\<close>

lemma handleApiResponse_failed:
  assumes "\<not> ok x"
  shows "\<exists>e. handleApiResponse env x = Inl e"
  using assms by (cases "errorMessage env (status x) (error_result env x)")
    (simp_all add: handleApiResponse_def)

lemma handleApiResponse_404:
  assumes "\<not> ok x" and "status x = 404"
  shows "handleApiResponse env x =
           Inl (Error (''API Error: '' @ ''Not found. Full message was '' @ [CHR 0x27]
                       @ dump env (error_result env x) @ [CHR 0x27]))"
  using assms by (simp add: handleApiResponse_def errorMessage_def)

text \<open>
  The message of a failed response is one of the categorized messages whenever the
  decoded body is not an object with an \<^verbatim>\<open>errors\<close> property.
\<close>

lemma errorMessage_plain:
  assumes "\<forall>ps. result = JObj ps \<longrightarrow> map_of ps ''errors'' = None"
  shows "\<exists>m. errorMessage env code result = Inr m"
  using assms by (cases result) (simp_all add: errorMessage_def)

text \<open>The \<^verbatim>\<open>X-API-KEY\<close> header of the requests that \<open>api_fetch\<close>, \<open>post\<close>, \<open>put\<close> and \<open>get\<close> issue.\<close>

lemma header_api_fetch:
  "header_of (init (fst (api_fetch env api apiPath opts))) k =
     (case header_of opts k of None \<Rightarrow> key_header (apiKey api) k | Some v \<Rightarrow> Some v)"
proof (cases "headers opts")
  case None
  then show ?thesis by (simp add: api_fetch_def Let_def header_of_def)
next
  case (Some h)
  then show ?thesis by (simp add: api_fetch_def Let_def header_of_def map_add_def)
qed

lemma key_header_constructor:
  "key_header (apiKey (constructor config)) ''X-API-KEY'' = configured_key config"
proof -
  have "apiKey (constructor config) = cfg_apiKey config"
    by (simp add: constructor_def split: option.split Network.split)
  then show ?thesis
    by (cases "cfg_apiKey config") (simp_all add: key_header_def configured_key_def)
qed

lemma header_post:
  "header_of (init (fst (post env api apiPath b opts))) ''X-API-KEY'' =
     (case header_of opts ''X-API-KEY'' of
        None \<Rightarrow> key_header (apiKey api) ''X-API-KEY''
      | Some v \<Rightarrow> Some v)"
proof -
  let ?fetchOpts =
    "\<lparr>http_method = (case http_method opts of None \<Rightarrow> Some ''POST'' | Some m \<Rightarrow> Some m),
      body = (case body opts of
                None \<Rightarrow> (if truthy b then JSON_stringify env b else None)
              | Some x \<Rightarrow> Some x),
      headers = (case headers opts of
                   None \<Rightarrow> Some [''Accept'' \<mapsto> ''application/json'',
                                 ''Content-Type'' \<mapsto> ''application/json'']
                 | Some h \<Rightarrow> Some h),
      others = others opts\<rparr>"
  have "header_of ?fetchOpts ''X-API-KEY'' = header_of opts ''X-API-KEY''"
    by (cases "headers opts") (simp_all add: header_of_def)
  moreover have "post env api apiPath b opts = api_fetch env api apiPath ?fetchOpts"
    by (simp add: post_def)
  ultimately show ?thesis
    by (simp only: header_api_fetch)
qed

lemma header_put:
  "header_of (init (fst (put env api apiPath b opts))) ''X-API-KEY'' =
     (case header_of opts ''X-API-KEY'' of
        None \<Rightarrow> key_header (apiKey api) ''X-API-KEY''
      | Some v \<Rightarrow> Some v)"
proof -
  have "header_of (opts\<lparr>http_method := m\<rparr>) ''X-API-KEY'' = header_of opts ''X-API-KEY''" for m
    by (simp add: header_of_def)
  then show ?thesis
    by (simp only: put_def header_post)
qed

lemma header_get:
  "header_of (init (fst (get env api apiPath query))) ''X-API-KEY'' =
     key_header (apiKey api) ''X-API-KEY''"
proof -
  have "header_of no_opts ''X-API-KEY'' = None"
    by (simp add: header_of_def no_opts_def)
  then show ?thesis
    by (simp add: get_def Let_def header_api_fetch)
qed

section \<open>Orderbook queries\<close>

text \<open>
  Claim C1. \<^verbatim>\<open>getOrders\<close> chooses the response schema by the orderbook version and never
  by the shape of the payload. On a successful response whose body decodes to \<open>json\<close>:
  with version 0, an array yields its normalized elements and its length as the count,
  while an object raises \<^verbatim>\<open>TypeError\<close>; with any other version, an object whose
  \<^verbatim>\<open>orders\<close> is an array yields the normalized orders and the payload's \<^verbatim>\<open>count\<close> as it
  is, while a bare array raises \<^verbatim>\<open>TypeError\<close>. The normalized orders are the list \<open>os\<close>
  that has one order for each element of the page, in the order of the page, each the
  result of \<^verbatim>\<open>orderFromJSON\<close> on that element (\<open>list_all2\<close>: the two lists have the
  same length and are related position by position).
\<close>

theorem getOrders_schema_by_version:
  assumes "fetch env (fst (getOrders ver env api orderFromJSON query page)) = Inr r"
    and "ok r" and "body_text r = Some t" and "JSON_parse env t = Some json"
  shows "(ver = 0 \<longrightarrow> (\<forall>js os. json = JArr js \<longrightarrow>
            list_all2 (\<lambda>j order. orderFromJSON j = Inr order) js os \<longrightarrow>
            snd (getOrders ver env api orderFromJSON query page) = Inr (os, JNum (int (length js)))))
       \<and> (ver = 0 \<longrightarrow> (\<forall>ps. json = JObj ps \<longrightarrow>
            snd (getOrders ver env api orderFromJSON query page) = Inl TypeError))
       \<and> (ver \<noteq> 0 \<longrightarrow> (\<forall>ps js os. json = JObj ps \<longrightarrow> map_of ps ''orders'' = Some (JArr js) \<longrightarrow>
            list_all2 (\<lambda>j order. orderFromJSON j = Inr order) js os \<longrightarrow>
            snd (getOrders ver env api orderFromJSON query page) =
              Inr (os, case map_of ps ''count'' of None \<Rightarrow> JUndefined | Some c \<Rightarrow> c)))
       \<and> (ver \<noteq> 0 \<longrightarrow> (\<forall>js. json = JArr js \<longrightarrow>
            snd (getOrders ver env api orderFromJSON query page) = Inl TypeError))"
proof -
  have conv: "list_all2 (\<lambda>j order. orderFromJSON j = Inr order) js os
                \<longleftrightarrow> map_result orderFromJSON js = Inr os" for js os
    by (simp add: map_result_Inr_iff)
  show ?thesis
    unfolding conv
    using assms by (cases "ver = 0") (simp_all add: getOrders_def op_defs)
qed

text \<open>
  The legacy client on the body \<^verbatim>\<open>[{}]\<close> returns one order and count 1, and on
  \<^verbatim>\<open>[{},{"id":1}]\<close> the two normalized orders and count 2; the client of this build
  (version 1) on \<^verbatim>\<open>{"orders":[{}],"count":57}\<close> returns one order and count 57, and on
  \<^verbatim>\<open>{"orders":[{},{"id":1}],"count":57}\<close> the two normalized orders and count 57.
\<close>

theorem getOrders_schema_by_version_witness:
  "snd (getOrders 0 (example_platform (success_response ''[{}]'')) (example_api None)
          example_normalizer Map.empty 1)
     = Inr ([[(''normalized'', JBool True)]], JNum 1)
   \<and> snd (getOrders 0 (example_platform (success_response legacy_two_orders_text)) (example_api None)
          example_normalizer Map.empty 1)
     = Inr ([[(''normalized'', JBool True)], [(''normalized'', JBool True), (''id'', JNum 1)]],
            JNum 2)
   \<and> snd (getOrders ORDERBOOK_VERSION (example_platform (success_response versioned_page_text))
            (example_api None) example_normalizer Map.empty 1)
     = Inr ([[(''normalized'', JBool True)]], JNum 57)
   \<and> snd (getOrders ORDERBOOK_VERSION (example_platform (success_response versioned_two_orders_text))
            (example_api None) example_normalizer Map.empty 1)
     = Inr ([[(''normalized'', JBool True)], [(''normalized'', JBool True), (''id'', JNum 1)]],
            JNum 57)"
proof -
  let ?A = "example_api None"
  let ?n = example_normalizer
  let ?o1 = "[(''normalized'', JBool True)]"
  let ?o2 = "[(''normalized'', JBool True), (''id'', JNum 1)]"
  have f: "fetch (example_platform resp) req = Inr resp" for resp req
    by (simp add: example_platform_def)
  have e: "ok (success_response t)" "body_text (success_response t) = Some t" for t
    by (simp_all add: success_response_def)
  have v: "ORDERBOOK_VERSION \<noteq> 0"
    by (simp add: ORDERBOOK_VERSION_def)
  have p1: "JSON_parse (example_platform resp) ''[{}]'' = Some (JArr [JObj []])" for resp
    by (simp add: fixture_defs)
  have p2: "JSON_parse (example_platform resp) legacy_two_orders_text
              = Some (JArr [JObj [], JObj [(''id'', JNum 1)]])" for resp
    by (simp add: fixture_defs)
  have p3: "JSON_parse (example_platform resp) versioned_page_text
              = Some (JObj [(''orders'', JArr [JObj []]), (''count'', JNum 57)])" for resp
    by (simp add: fixture_defs)
  have p4: "JSON_parse (example_platform resp) versioned_two_orders_text
              = Some (JObj [(''orders'', JArr [JObj [], JObj [(''id'', JNum 1)]]),
                            (''count'', JNum 57)])" for resp
    by (simp add: fixture_defs)
  have n1: "list_all2 (\<lambda>j order. ?n j = Inr order) [JObj []] [?o1]"
    by simp
  have n2: "list_all2 (\<lambda>j order. ?n j = Inr order) [JObj [], JObj [(''id'', JNum 1)]] [?o1, ?o2]"
    by simp
  have 1: "snd (getOrders 0 (example_platform (success_response ''[{}]'')) ?A ?n Map.empty 1)
             = Inr ([?o1], JNum 1)"
    using getOrders_schema_by_version
      [where ver = 0 and api = ?A and orderFromJSON = ?n and query = Map.empty and page = 1,
       OF f e p1] n1 by simp
  have 2: "snd (getOrders 0 (example_platform (success_response legacy_two_orders_text)) ?A ?n
                  Map.empty 1)
             = Inr ([?o1, ?o2], JNum 2)"
    using getOrders_schema_by_version
      [where ver = 0 and api = ?A and orderFromJSON = ?n and query = Map.empty and page = 1,
       OF f e p2] n2 by simp
  have 3: "snd (getOrders ORDERBOOK_VERSION (example_platform (success_response versioned_page_text))
                  ?A ?n Map.empty 1)
             = Inr ([?o1], JNum 57)"
    using getOrders_schema_by_version
      [where ver = ORDERBOOK_VERSION and api = ?A and orderFromJSON = ?n and query = Map.empty and page = 1,
       OF f e p3] n1 v
    by simp
  have 4: "snd (getOrders ORDERBOOK_VERSION
                  (example_platform (success_response versioned_two_orders_text)) ?A ?n Map.empty 1)
             = Inr ([?o1, ?o2], JNum 57)"
    using getOrders_schema_by_version
      [where ver = ORDERBOOK_VERSION and api = ?A and orderFromJSON = ?n and query = Map.empty and page = 1,
       OF f e p4] n2 v
    by simp
  from 1 2 3 4 show ?thesis by (intro conjI)
qed

text \<open>
  Claim C2. Every paginated list operation (\<^verbatim>\<open>getOrders\<close>, \<^verbatim>\<open>getAssets\<close>, \<^verbatim>\<open>getTokens\<close>,
  \<^verbatim>\<open>getBundles\<close>) requests the URL made of the base URL, the path and the serialized
  query, and the query it serializes is the caller's with \<^verbatim>\<open>limit\<close> set to the current
  page size and \<^verbatim>\<open>offset\<close> set to \<open>(page - 1) * pageSize\<close>. This holds for every page
  number, the pages from 1 on among them.
\<close>

theorem paginated_request_limit_offset:
  "url (fst (getOrders ver env api orderFromJSON query page)) =
     apiBaseUrl api @ ORDERBOOK_PATH ver @ ''/orders'' @ ''?'' @
       QueryString_stringify env
         (query(''limit'' \<mapsto> JNum (pageSize api), ''offset'' \<mapsto> JNum ((page - 1) * pageSize api)))
   \<and> url (fst (getAssets ver env api assetFromJSON query page)) =
     apiBaseUrl api @ API_PATH ver @ ''/assets/'' @ ''?'' @
       QueryString_stringify env
         (query(''limit'' \<mapsto> JNum (pageSize api), ''offset'' \<mapsto> JNum ((page - 1) * pageSize api)))
   \<and> url (fst (getTokens ver env api tokenFromJSON query page)) =
     apiBaseUrl api @ API_PATH ver @ ''/tokens/'' @ ''?'' @
       QueryString_stringify env
         (query(''limit'' \<mapsto> JNum (pageSize api), ''offset'' \<mapsto> JNum ((page - 1) * pageSize api)))
   \<and> url (fst (getBundles ver env api assetBundleFromJSON query page)) =
     apiBaseUrl api @ API_PATH ver @ ''/bundles/'' @ ''?'' @
       QueryString_stringify env
         (query(''limit'' \<mapsto> JNum (pageSize api), ''offset'' \<mapsto> JNum ((page - 1) * pageSize api)))"
  by (simp add: getOrders_def getAssets_def getTokens_def getBundles_def op_defs)

text \<open>
  With the default page size 20: page 1 requests offset 0 and page 3 requests offset 40.
\<close>

theorem paginated_request_limit_offset_witness:
  "url (fst (getOrders 1 (example_platform (success_response ''[]'')) (example_api None) Inr Map.empty 1))
     = ''https://api.opensea.io/wyvern/v1/orders?limit=20&offset=0''
   \<and> url (fst (getOrders 1 (example_platform (success_response ''[]'')) (example_api None) Inr Map.empty 3))
     = ''https://api.opensea.io/wyvern/v1/orders?limit=20&offset=40''
   \<and> url (fst (getAssets 1 (example_platform (success_response ''[]'')) (example_api None) Inr Map.empty 3))
     = ''https://api.opensea.io/api/v1/assets/?limit=20&offset=40''"
proof -
  let ?E = "example_platform (success_response ''[]'')"
  let ?A = "example_api None"
  let ?q = "\<lambda>p. (Map.empty :: string \<rightharpoonup> jsval)
                 (''limit'' \<mapsto> JNum (pageSize ?A), ''offset'' \<mapsto> JNum ((p - 1) * pageSize ?A))"
  have q1: "QueryString_stringify ?E (?q 1) = ''limit=20&offset=0''"
    by (simp add: fixture_defs)
  have q3: "QueryString_stringify ?E (?q 3) = ''limit=20&offset=40''"
    by (simp add: fixture_defs)
  have base: "apiBaseUrl ?A = ''https://api.opensea.io''"
    by (simp add: fixture_defs)
  have p1: "ORDERBOOK_PATH 1 = ''/wyvern/v1''" and p2: "API_PATH 1 = ''/api/v1''"
    by (simp_all add: fixture_defs)
  from paginated_request_limit_offset [of 1 ?E ?A Inr Map.empty 1 Inr Inr Inr]
  have "url (fst (getOrders 1 ?E ?A Inr Map.empty 1)) =
          apiBaseUrl ?A @ ORDERBOOK_PATH 1 @ ''/orders'' @ ''?'' @ QueryString_stringify ?E (?q 1)"
    by (rule conjunct1)
  then have a: "url (fst (getOrders 1 ?E ?A Inr Map.empty 1))
                  = ''https://api.opensea.io/wyvern/v1/orders?limit=20&offset=0''"
    by (simp only: q1 base p1) simp
  from paginated_request_limit_offset [of 1 ?E ?A Inr Map.empty 3 Inr Inr Inr]
  have b0: "url (fst (getOrders 1 ?E ?A Inr Map.empty 3)) =
          apiBaseUrl ?A @ ORDERBOOK_PATH 1 @ ''/orders'' @ ''?'' @ QueryString_stringify ?E (?q 3)"
     and c0: "url (fst (getAssets 1 ?E ?A Inr Map.empty 3)) =
          apiBaseUrl ?A @ API_PATH 1 @ ''/assets/'' @ ''?'' @ QueryString_stringify ?E (?q 3)"
    by blast+
  from b0 have b: "url (fst (getOrders 1 ?E ?A Inr Map.empty 3))
                  = ''https://api.opensea.io/wyvern/v1/orders?limit=20&offset=40''"
    by (simp only: q3 base p1) simp
  from c0 have c: "url (fst (getAssets 1 ?E ?A Inr Map.empty 3))
                  = ''https://api.opensea.io/api/v1/assets/?limit=20&offset=40''"
    by (simp only: q3 base p2) simp
  from a b c show ?thesis by blast
qed

text \<open>
  Claim C3. When the server answers successfully with zero matching orders,
  \<^verbatim>\<open>getOrder\<close> returns \<^verbatim>\<open>null\<close>: with a version other than 0 on a body whose \<^verbatim>\<open>orders\<close>
  is the empty array, and with version 0 on the empty array. The result is the value
  \<open>Inr None\<close>, neither an error nor a list, for every query.
\<close>

theorem getOrder_null_on_zero_orders:
  assumes "fetch env (fst (getOrder ver env api orderFromJSON query)) = Inr r"
    and "ok r" and "body_text r = Some t" and "JSON_parse env t = Some json"
  shows "(ver \<noteq> 0 \<longrightarrow> (\<forall>ps. json = JObj ps \<longrightarrow> map_of ps ''orders'' = Some (JArr []) \<longrightarrow>
            snd (getOrder ver env api orderFromJSON query) = Inr None))
       \<and> (ver = 0 \<longrightarrow> json = JArr [] \<longrightarrow>
            snd (getOrder ver env api orderFromJSON query) = Inr None)"
  using assms by (cases "ver = 0") (simp_all add: getOrder_def op_defs)

theorem getOrder_null_on_zero_orders_witness:
  "snd (getOrder ORDERBOOK_VERSION (example_platform (success_response empty_page_text))
          (example_api None) Inr Map.empty) = Inr None
   \<and> snd (getOrder 0 (example_platform (success_response ''[]'')) (example_api None)
          Inr Map.empty) = Inr None"
proof -
  let ?A = "example_api None"
  let ?E0 = "example_platform (success_response ''[]'')"
  let ?E1 = "example_platform (success_response empty_page_text)"
  have a: "fetch ?E0 (fst (getOrder 0 ?E0 ?A Inr Map.empty)) = Inr (success_response ''[]'')"
    by (simp add: example_platform_def)
  have b: "fetch ?E1 (fst (getOrder ORDERBOOK_VERSION ?E1 ?A Inr Map.empty))
             = Inr (success_response empty_page_text)"
    by (simp add: example_platform_def)
  have c: "JSON_parse ?E0 ''[]'' = Some (JArr [])"
    by (simp add: fixture_defs)
  have d: "JSON_parse ?E1 empty_page_text = Some (JObj [(''orders'', JArr []), (''count'', JNum 0)])"
    by (simp add: fixture_defs)
  have e: "ok (success_response t)" "body_text (success_response t) = Some t" for t
    by (simp_all add: success_response_def)
  have v: "ORDERBOOK_VERSION \<noteq> 0"
    by (simp add: ORDERBOOK_VERSION_def)
  from getOrder_null_on_zero_orders [OF a e c] getOrder_null_on_zero_orders [OF b e d] v
  show ?thesis by simp
qed

section \<open>Failed responses\<close>

text \<open>
  A failed response with status 404 and the body \<^verbatim>\<open>oops\<close>, which is not JSON: the
  result that the message is built from is the string \<^verbatim>\<open>oops\<close>, not \<^verbatim>\<open>undefined\<close>, and
  the message quotes it.
\<close>

theorem unparseable_error_body_is_not_undefined:
  "\<not> ok (failure_response 404 ''oops'')
   \<and> JSON_parse (example_platform (failure_response 404 ''oops'')) ''oops'' = None
   \<and> error_result (example_platform (failure_response 404 ''oops'')) (failure_response 404 ''oops'')
       = JStr ''oops''
   \<and> error_result (example_platform (failure_response 404 ''oops'')) (failure_response 404 ''oops'')
       \<noteq> JUndefined
   \<and> handleApiResponse (example_platform (failure_response 404 ''oops'')) (failure_response 404 ''oops'')
       = Inl (Error (''API Error: Not found. Full message was '' @ [CHR 0x27] @ quoted ''oops''
                     @ [CHR 0x27]))"
  by (simp add: fixture_defs error_result_def handleApiResponse_def errorMessage_def dump_def)

text \<open>
  Claim C4, amended. For a failed response the parse failure of the body is swallowed:
  when the body text is not parseable as JSON, the result that the error message is built
  from is the body text itself, as a string; it is \<^verbatim>\<open>undefined\<close> only when the body text
  cannot be read. In both cases the caller receives the categorized error
  \<^verbatim>\<open>API Error: ...\<close> and never a response.
\<close>

theorem unparseable_error_body_is_text:
  assumes "\<not> ok r"
  shows "(body_text r = None \<longrightarrow> error_result env r = JUndefined)
       \<and> (\<forall>t. body_text r = Some t \<longrightarrow> JSON_parse env t = None \<longrightarrow> error_result env r = JStr t)
       \<and> ((\<forall>t. body_text r = Some t \<longrightarrow> JSON_parse env t = None) \<longrightarrow>
            (\<exists>m. errorMessage env (status r) (error_result env r) = Inr m
                 \<and> handleApiResponse env r = Inl (Error (''API Error: '' @ m))))"
proof -
  have a: "body_text r = None \<longrightarrow> error_result env r = JUndefined"
    by (simp add: error_result_def)
  have b: "\<forall>t. body_text r = Some t \<longrightarrow> JSON_parse env t = None \<longrightarrow> error_result env r = JStr t"
    by (simp add: error_result_def)
  have c: "\<exists>m. errorMessage env (status r) (error_result env r) = Inr m
                 \<and> handleApiResponse env r = Inl (Error (''API Error: '' @ m))"
    if h: "\<forall>t. body_text r = Some t \<longrightarrow> JSON_parse env t = None"
  proof -
    have "\<forall>ps. error_result env r = JObj ps \<longrightarrow> map_of ps ''errors'' = None"
      using h by (cases "body_text r") (simp_all add: error_result_def)
    then obtain m where m: "errorMessage env (status r) (error_result env r) = Inr m"
      using errorMessage_plain by blast
    then show ?thesis using assms by (simp add: handleApiResponse_def)
  qed
  from a b c show ?thesis by blast
qed

theorem unparseable_error_body_is_text_witness:
  "error_result (example_platform (failure_response 500 ''oops'')) (failure_response 500 ''oops'')
     = JStr ''oops''
   \<and> (\<exists>m. handleApiResponse (example_platform (failure_response 500 ''oops''))
             (failure_response 500 ''oops'') = Inl (Error (''API Error: '' @ m)))"
proof -
  let ?R = "failure_response 500 ''oops''"
  let ?E = "example_platform ?R"
  have a: "\<not> ok ?R" by (simp add: failure_response_def)
  have b: "body_text ?R = Some ''oops''" by (simp add: failure_response_def)
  have c: "JSON_parse ?E ''oops'' = None" by (simp add: fixture_defs)
  from unparseable_error_body_is_text [OF a, of ?E] b c show ?thesis by auto
qed

text \<open>
  The two cases that the status 400 branch handles: when the decoded body is an object
  whose \<^verbatim>\<open>errors\<close> is a list, the message of the raised error is that list joined with
  \<^verbatim>\<open>', '\<close>; when the decoded body has no \<^verbatim>\<open>errors\<close> property, or one that is falsy, the
  message is \<^verbatim>\<open>Invalid request: \<close> followed by the dump of the decoded body.
\<close>

theorem invalid_request_message:
  assumes "\<not> ok r" and "status r = 400"
  shows "(\<forall>ps es. error_result env r = JObj ps \<longrightarrow> map_of ps ''errors'' = Some (JArr es) \<longrightarrow>
            handleApiResponse env r = Inl (Error (''API Error: '' @ array_join '', '' es)))
       \<and> ((\<forall>ps v. error_result env r = JObj ps \<longrightarrow> map_of ps ''errors'' = Some v \<longrightarrow> \<not> truthy v) \<longrightarrow>
            handleApiResponse env r =
              Inl (Error (''API Error: '' @ ''Invalid request: '' @ dump env (error_result env r))))"
proof -
  have "handleApiResponse env r =
              Inl (Error (''API Error: '' @ ''Invalid request: '' @ dump env (error_result env r)))"
    if h: "\<forall>ps v. error_result env r = JObj ps \<longrightarrow> map_of ps ''errors'' = Some v \<longrightarrow> \<not> truthy v"
  proof (cases "error_result env r")
    case (JObj ps)
    with h have "\<not> truthy (case map_of ps ''errors'' of None \<Rightarrow> JUndefined | Some v \<Rightarrow> v)"
      by (cases "map_of ps ''errors''") simp_all
    with JObj assms show ?thesis
      by (simp add: handleApiResponse_def errorMessage_def)
  qed (use assms in \<open>simp_all add: handleApiResponse_def errorMessage_def\<close>)
  moreover have "\<forall>ps es. error_result env r = JObj ps \<longrightarrow> map_of ps ''errors'' = Some (JArr es) \<longrightarrow>
            handleApiResponse env r = Inl (Error (''API Error: '' @ array_join '', '' es))"
    using assms by (simp add: handleApiResponse_def errorMessage_def)
  ultimately show ?thesis by blast
qed

text \<open>
  Status 400 with the body \<^verbatim>\<open>{"errors":["bad salt","bad side"]}\<close> raises
  \<^verbatim>\<open>API Error: bad salt, bad side\<close>; with the body \<^verbatim>\<open>{}\<close> it raises
  \<^verbatim>\<open>API Error: Invalid request: {}\<close>.
\<close>

theorem invalid_request_message_witness:
  "handleApiResponse (example_platform (failure_response 400 errors_text))
     (failure_response 400 errors_text) = Inl (Error ''API Error: bad salt, bad side'')
   \<and> handleApiResponse (example_platform (failure_response 400 ''{}''))
     (failure_response 400 ''{}'') = Inl (Error ''API Error: Invalid request: {}'')"
proof -
  let ?R = "failure_response 400 errors_text"
  let ?E = "example_platform ?R"
  let ?R2 = "failure_response 400 ''{}''"
  let ?E2 = "example_platform ?R2"
  have a: "\<not> ok (failure_response 400 t)" "status (failure_response 400 t) = 400" for t
    by (simp_all add: failure_response_def)
  have b: "error_result ?E ?R = JObj [(''errors'', JArr [JStr ''bad salt'', JStr ''bad side''])]"
    by (simp add: fixture_defs error_result_def)
  have c: "error_result ?E2 ?R2 = JObj []"
    by (simp add: fixture_defs error_result_def)
  have d: "array_join '', '' [JStr ''bad salt'', JStr ''bad side''] = ''bad salt, bad side''"
    by (simp add: array_join_def)
  have e: "dump ?E2 (JObj []) = ''{}''"
    by (simp add: fixture_defs dump_def)
  from invalid_request_message [OF a, of ?E errors_text] b d
  have 1: "handleApiResponse ?E ?R = Inl (Error ''API Error: bad salt, bad side'')"
    by simp
  from invalid_request_message [OF a, of ?E2 "''{}''"] c e
  have 2: "handleApiResponse ?E2 ?R2 = Inl (Error ''API Error: Invalid request: {}'')"
    by simp
  from 1 2 show ?thesis by blast
qed

text \<open>
  Claim C5. For status 400 the message of the raised error is the \<^verbatim>\<open>errors\<close> list
  joined with \<^verbatim>\<open>', '\<close> when the body has one, and a generic dump of the body when no
  \<^verbatim>\<open>errors\<close> list is present. The code departs from this on a body whose \<^verbatim>\<open>errors\<close> is
  present, truthy and not a list. Status 400 with the body \<^verbatim>\<open>{"errors":"bad salt"}\<close>
  holds no \<^verbatim>\<open>errors\<close> list, and there the test \<^verbatim>\<open>result && result.errors\<close> succeeds, the
  call \<^verbatim>\<open>result.errors.join(', ')\<close> finds no such method on a string, and the handler
  raises a bare \<^verbatim>\<open>TypeError\<close>: neither the generic dump
  \<^verbatim>\<open>API Error: Invalid request: {"errors":"bad salt"}\<close> nor any other \<^verbatim>\<open>API Error\<close>.
\<close>

theorem invalid_request_errors_not_a_list_raises_TypeError:
  "\<not> ok (failure_response 400 errors_string_text)
   \<and> status (failure_response 400 errors_string_text) = 400
   \<and> error_result (example_platform (failure_response 400 errors_string_text))
         (failure_response 400 errors_string_text)
       = JObj [(''errors'', JStr ''bad salt'')]
   \<and> handleApiResponse (example_platform (failure_response 400 errors_string_text))
         (failure_response 400 errors_string_text)
       = Inl TypeError
   \<and> handleApiResponse (example_platform (failure_response 400 errors_string_text))
         (failure_response 400 errors_string_text)
       \<noteq> Inl (Error (''API Error: '' @ ''Invalid request: '' @ errors_string_text))"
  by (simp add: fixture_defs error_result_def handleApiResponse_def errorMessage_def)

text \<open>
  A failed response with status 404 and the body \<^verbatim>\<open>{ }\<close>, an empty object written with a
  space: the message holds \<^verbatim>\<open>{}\<close>, the decoded body as \<^verbatim>\<open>JSON.stringify\<close> writes it, and
  the text \<^verbatim>\<open>{ }\<close> of the body occurs nowhere in it.
\<close>

theorem not_found_message_does_not_embed_raw_body:
  "\<not> ok (failure_response 404 ''{ }'')
   \<and> status (failure_response 404 ''{ }'') = 404
   \<and> body_text (failure_response 404 ''{ }'') = Some ''{ }''
   \<and> handleApiResponse (example_platform (failure_response 404 ''{ }'')) (failure_response 404 ''{ }'')
       = Inl (Error (''API Error: Not found. Full message was '' @ [CHR 0x27] @ ''{}'' @ [CHR 0x27]))
   \<and> \<not> sublist ''{ }''
         (''API Error: Not found. Full message was '' @ [CHR 0x27] @ ''{}'' @ [CHR 0x27])"
proof -
  have "\<not> sublist ''{ }''
         (''API Error: Not found. Full message was '' @ [CHR 0x27] @ ''{}'' @ [CHR 0x27])"
    by (simp add: sublist_Cons_right)
  then show ?thesis
    by (simp add: fixture_defs error_result_def handleApiResponse_def errorMessage_def dump_def)
qed

text \<open>
  Claim C6, amended. Every failed response with status 404, whatever its body, raises the
  error whose message is \<^verbatim>\<open>API Error: Not found. Full message was '...'\<close>, where the dots
  are the dump (\<^verbatim>\<open>JSON.stringify\<close>) of the decoded body: of the parsed JSON, of the body
  text as a string when it is not JSON, and \<^verbatim>\<open>undefined\<close> when the body cannot be read.
  So the message contains \<^verbatim>\<open>Not found\<close> and the dump of the decoded body; it contains the
  text of the body itself whenever that text is the JSON that \<^verbatim>\<open>JSON.stringify\<close> writes
  for it.
\<close>

theorem not_found_message:
  assumes "\<not> ok r" and "status r = 404"
  shows "handleApiResponse env r =
           Inl (Error (''API Error: '' @ ''Not found. Full message was '' @ [CHR 0x27]
                       @ dump env (error_result env r) @ [CHR 0x27]))
       \<and> (\<exists>msg. handleApiResponse env r = Inl (Error msg) \<and> sublist ''Not found'' msg
                 \<and> sublist (dump env (error_result env r)) msg)
       \<and> (\<forall>t j. body_text r = Some t \<longrightarrow> JSON_parse env t = Some j \<longrightarrow> JSON_stringify env j = Some t \<longrightarrow>
             (\<exists>msg. handleApiResponse env r = Inl (Error msg) \<and> sublist t msg))"
proof -
  let ?d = "dump env (error_result env r)"
  let ?msg = "''API Error: '' @ ''Not found. Full message was '' @ [CHR 0x27] @ ?d @ [CHR 0x27]"
  have eq: "handleApiResponse env r = Inl (Error ?msg)"
    using assms by (rule handleApiResponse_404)
  have nf: "sublist ''Not found'' ?msg"
    unfolding sublist_def
    by (rule exI [of _ "''API Error: ''"],
        rule exI [of _ "''. Full message was '' @ [CHR 0x27] @ ?d @ [CHR 0x27]"]) simp
  have dm: "sublist ?d ?msg"
    unfolding sublist_def
    by (rule exI [of _ "''API Error: Not found. Full message was '' @ [CHR 0x27]"],
        rule exI [of _ "[CHR 0x27]"]) simp
  have raw: "?d = t"
    if "body_text r = Some t" "JSON_parse env t = Some j" "JSON_stringify env j = Some t" for t j
    using that by (simp add: dump_def error_result_def)
  from eq nf dm raw show ?thesis by metis
qed

text \<open>Status 404 with the body \<^verbatim>\<open>{}\<close> raises \<^verbatim>\<open>API Error: Not found. Full message was '{}'\<close>.\<close>

theorem not_found_message_witness:
  "handleApiResponse (example_platform (failure_response 404 ''{}'')) (failure_response 404 ''{}'')
     = Inl (Error (''API Error: Not found. Full message was '' @ [CHR 0x27] @ ''{}'' @ [CHR 0x27]))"
proof -
  let ?R = "failure_response 404 ''{}''"
  let ?E = "example_platform ?R"
  have a: "\<not> ok ?R" "status ?R = 404"
    by (simp_all add: failure_response_def)
  have b: "dump ?E (error_result ?E ?R) = ''{}''"
    by (simp add: fixture_defs dump_def error_result_def)
  from not_found_message [OF a, of ?E] b show ?thesis by simp
qed

section \<open>Single-record lookups\<close>

text \<open>
  Claim C7. A lookup by \<^verbatim>\<open>getAsset\<close> or \<^verbatim>\<open>getBundle\<close> that finds nothing is not an error
  and returns \<^verbatim>\<open>null\<close>, as the documentation of both operations says ("return null if it
  isn't found"). The code departs from this when the server reports the asset or bundle
  as not found with status 404: the shared response handler raises the "Not found" error
  before the operation reads the body, so both operations raise; they do not return
  \<^verbatim>\<open>null\<close>.
\<close>

theorem getAsset_getBundle_raise_on_404:
  "snd (getAsset ORDERBOOK_VERSION (example_platform (failure_response 404 ''{}'')) (example_api None)
          Inr ''0xabc'' (JNum 7))
     = Inl (Error (''API Error: Not found. Full message was '' @ [CHR 0x27] @ ''{}'' @ [CHR 0x27]))
   \<and> snd (getAsset ORDERBOOK_VERSION (example_platform (failure_response 404 ''{}'')) (example_api None)
          Inr ''0xabc'' (JNum 7))
     \<noteq> (Inr None :: error + jsval option)
   \<and> snd (getBundle ORDERBOOK_VERSION (example_platform (failure_response 404 ''{}'')) (example_api None)
          Inr ''my-bundle'')
     = Inl (Error (''API Error: Not found. Full message was '' @ [CHR 0x27] @ ''{}'' @ [CHR 0x27]))
   \<and> snd (getBundle ORDERBOOK_VERSION (example_platform (failure_response 404 ''{}'')) (example_api None)
          Inr ''my-bundle'')
     \<noteq> (Inr None :: error + jsval option)"
proof -
  let ?R = "failure_response 404 ''{}''"
  let ?E = "example_platform ?R"
  have h: "handleApiResponse ?E ?R =
      Inl (Error (''API Error: Not found. Full message was '' @ [CHR 0x27] @ ''{}'' @ [CHR 0x27]))"
    by (simp add: fixture_defs error_result_def handleApiResponse_def errorMessage_def dump_def)
  have f: "fetch ?E req = Inr ?R" for req
    by (simp add: example_platform_def)
  have a: "snd (getAsset ORDERBOOK_VERSION ?E (example_api None) Inr ''0xabc'' (JNum 7))
     = (Inl (Error (''API Error: Not found. Full message was '' @ [CHR 0x27] @ ''{}'' @ [CHR 0x27]))
          :: error + jsval option)"
    by (simp add: getAsset_def get_def api_fetch_def Let_def split_def f h)
  have b: "snd (getBundle ORDERBOOK_VERSION ?E (example_api None) Inr ''my-bundle'')
     = (Inl (Error (''API Error: Not found. Full message was '' @ [CHR 0x27] @ ''{}'' @ [CHR 0x27]))
          :: error + jsval option)"
    by (simp add: getBundle_def get_def api_fetch_def Let_def split_def f h)
  from a b show ?thesis by simp
qed

text \<open>
  What the two operations do in general: they return \<^verbatim>\<open>null\<close> when the server answers
  successfully with a body that decodes to a falsy value (\<^verbatim>\<open>null\<close>, \<^verbatim>\<open>false\<close>, \<^verbatim>\<open>0\<close>,
  the empty string). When the server answers with a failure status they raise, and with
  status 404 they raise the "Not found" error.
\<close>

theorem getAsset_getBundle_null_or_raise:
  "(fetch env (fst (getAsset ver env api assetFromJSON tokenAddress tokenId)) = Inr r \<longrightarrow>
      (ok r \<longrightarrow> (\<forall>t j. body_text r = Some t \<longrightarrow> JSON_parse env t = Some j \<longrightarrow> \<not> truthy j \<longrightarrow>
                snd (getAsset ver env api assetFromJSON tokenAddress tokenId) = Inr None))
    \<and> (\<not> ok r \<longrightarrow> (\<exists>e. snd (getAsset ver env api assetFromJSON tokenAddress tokenId) = Inl e))
    \<and> (\<not> ok r \<longrightarrow> status r = 404 \<longrightarrow>
          snd (getAsset ver env api assetFromJSON tokenAddress tokenId) =
            Inl (Error (''API Error: '' @ ''Not found. Full message was '' @ [CHR 0x27]
                        @ dump env (error_result env r) @ [CHR 0x27]))))
   \<and> (fetch env (fst (getBundle ver env api assetBundleFromJSON slug)) = Inr r' \<longrightarrow>
      (ok r' \<longrightarrow> (\<forall>t j. body_text r' = Some t \<longrightarrow> JSON_parse env t = Some j \<longrightarrow> \<not> truthy j \<longrightarrow>
                snd (getBundle ver env api assetBundleFromJSON slug) = Inr None))
    \<and> (\<not> ok r' \<longrightarrow> (\<exists>e. snd (getBundle ver env api assetBundleFromJSON slug) = Inl e))
    \<and> (\<not> ok r' \<longrightarrow> status r' = 404 \<longrightarrow>
          snd (getBundle ver env api assetBundleFromJSON slug) =
            Inl (Error (''API Error: '' @ ''Not found. Full message was '' @ [CHR 0x27]
                        @ dump env (error_result env r') @ [CHR 0x27]))))"
proof -
  have a: "snd (getAsset ver env api assetFromJSON tokenAddress tokenId) =
      and_then (and_then (fetch env (fst (getAsset ver env api assetFromJSON tokenAddress tokenId)))
                  (handleApiResponse env))
        (\<lambda>response. and_then (response_json env response) (\<lambda>json.
           if truthy json then and_then (assetFromJSON json) (\<lambda>asset. Inr (Some asset))
           else Inr None))"
    by (simp add: getAsset_def get_def api_fetch_def Let_def split_def)
  have b: "snd (getBundle ver env api assetBundleFromJSON slug) =
      and_then (and_then (fetch env (fst (getBundle ver env api assetBundleFromJSON slug)))
                  (handleApiResponse env))
        (\<lambda>response. and_then (response_json env response) (\<lambda>json.
           if truthy json then and_then (assetBundleFromJSON json) (\<lambda>bundle. Inr (Some bundle))
           else Inr None))"
    by (simp add: getBundle_def get_def api_fetch_def Let_def split_def)
  have ok_case: "and_then (handleApiResponse env x)
        (\<lambda>response. and_then (response_json env response) (\<lambda>json.
           if truthy json then and_then (f json) (\<lambda>v. Inr (Some v)) else Inr None)) = Inr None"
    if "ok x" "body_text x = Some t" "JSON_parse env t = Some j" "\<not> truthy j" for x t j
      and f :: "jsval \<Rightarrow> error + 'z"
    using that by (simp add: handleApiResponse_def response_json_def response_text_def)
  show ?thesis
  proof (intro conjI impI allI)
    fix t j
    assume "fetch env (fst (getAsset ver env api assetFromJSON tokenAddress tokenId)) = Inr r"
      "ok r" "body_text r = Some t" "JSON_parse env t = Some j" "\<not> truthy j"
    then show "snd (getAsset ver env api assetFromJSON tokenAddress tokenId) = Inr None"
      by (simp add: a ok_case)
  next
    assume "fetch env (fst (getAsset ver env api assetFromJSON tokenAddress tokenId)) = Inr r" "\<not> ok r"
    then show "\<exists>e. snd (getAsset ver env api assetFromJSON tokenAddress tokenId) = Inl e"
      using handleApiResponse_failed [of r env] by (auto simp add: a)
  next
    assume "fetch env (fst (getAsset ver env api assetFromJSON tokenAddress tokenId)) = Inr r" "\<not> ok r"
      "status r = 404"
    then show "snd (getAsset ver env api assetFromJSON tokenAddress tokenId) =
            Inl (Error (''API Error: '' @ ''Not found. Full message was '' @ [CHR 0x27]
                        @ dump env (error_result env r) @ [CHR 0x27]))"
      by (simp add: a handleApiResponse_404)
  next
    fix t j
    assume "fetch env (fst (getBundle ver env api assetBundleFromJSON slug)) = Inr r'"
      "ok r'" "body_text r' = Some t" "JSON_parse env t = Some j" "\<not> truthy j"
    then show "snd (getBundle ver env api assetBundleFromJSON slug) = Inr None"
      by (simp add: b ok_case)
  next
    assume "fetch env (fst (getBundle ver env api assetBundleFromJSON slug)) = Inr r'" "\<not> ok r'"
    then show "\<exists>e. snd (getBundle ver env api assetBundleFromJSON slug) = Inl e"
      using handleApiResponse_failed [of r' env] by (auto simp add: b)
  next
    assume "fetch env (fst (getBundle ver env api assetBundleFromJSON slug)) = Inr r'" "\<not> ok r'"
      "status r' = 404"
    then show "snd (getBundle ver env api assetBundleFromJSON slug) =
            Inl (Error (''API Error: '' @ ''Not found. Full message was '' @ [CHR 0x27]
                        @ dump env (error_result env r') @ [CHR 0x27]))"
      by (simp add: b handleApiResponse_404)
  qed
qed

text \<open>A successful response with the body \<^verbatim>\<open>null\<close> gives \<^verbatim>\<open>null\<close> from both operations.\<close>

theorem getAsset_getBundle_null_or_raise_witness:
  "snd (getAsset ORDERBOOK_VERSION (example_platform (success_response ''null'')) (example_api None)
          Inr ''0xabc'' (JNum 7)) = (Inr None :: error + jsval option)
   \<and> snd (getBundle ORDERBOOK_VERSION (example_platform (success_response ''null'')) (example_api None)
          Inr ''my-bundle'') = (Inr None :: error + jsval option)"
proof -
  let ?R = "success_response ''null''"
  let ?E = "example_platform ?R"
  let ?A = "example_api None"
  let ?n = "Inr :: jsval \<Rightarrow> error + jsval"
  note t = getAsset_getBundle_null_or_raise
    [of ?E ORDERBOOK_VERSION ?A ?n "''0xabc''" "JNum 7" ?R ?n "''my-bundle''" ?R]
  have f: "fetch ?E req = Inr ?R" for req
    by (simp add: example_platform_def)
  have o: "ok ?R" and bt: "body_text ?R = Some ''null''"
    by (simp_all add: success_response_def)
  have p: "JSON_parse ?E ''null'' = Some JNull"
    by (simp add: fixture_defs)
  have n: "\<not> truthy JNull"
    by simp
  from t f o bt p n show ?thesis by blast
qed

section \<open>Writing requests\<close>

text \<open>
  \<^verbatim>\<open>put\<close> with options that carry the method \<^verbatim>\<open>PATCH\<close> issues a \<^verbatim>\<open>PATCH\<close> request,
  where \<^verbatim>\<open>post\<close> with the method overridden to \<^verbatim>\<open>PUT\<close> issues a \<^verbatim>\<open>PUT\<close> request.
\<close>

theorem put_differs_from_post_with_method_overridden:
  "put (example_platform (success_response ''{}'')) (example_api None) ''/x'' (JObj [])
       (no_opts\<lparr>http_method := Some ''PATCH''\<rparr>)
     \<noteq> put_spec (example_platform (success_response ''{}'')) (example_api None) ''/x'' (JObj [])
       (no_opts\<lparr>http_method := Some ''PATCH''\<rparr>)
   \<and> http_method (init (fst (put (example_platform (success_response ''{}'')) (example_api None) ''/x''
       (JObj []) (no_opts\<lparr>http_method := Some ''PATCH''\<rparr>)))) = Some ''PATCH''
   \<and> http_method (init (fst (put_spec (example_platform (success_response ''{}'')) (example_api None) ''/x''
       (JObj []) (no_opts\<lparr>http_method := Some ''PATCH''\<rparr>)))) = Some ''PUT''"
proof -
  let ?E = "example_platform (success_response ''{}'')"
  let ?A = "example_api None"
  let ?o = "no_opts\<lparr>http_method := Some ''PATCH''\<rparr>"
  have a: "http_method (init (fst (put ?E ?A ''/x'' (JObj []) ?o))) = Some ''PATCH''"
    by (simp add: put_def post_def api_fetch_def Let_def no_opts_def)
  have b: "http_method (init (fst (put_spec ?E ?A ''/x'' (JObj []) ?o))) = Some ''PUT''"
    by (simp add: put_spec_def post_def api_fetch_def Let_def no_opts_def)
  have "put ?E ?A ''/x'' (JObj []) ?o \<noteq> put_spec ?E ?A ''/x'' (JObj []) ?o"
  proof
    assume "put ?E ?A ''/x'' (JObj []) ?o = put_spec ?E ?A ''/x'' (JObj []) ?o"
    then have "http_method (init (fst (put ?E ?A ''/x'' (JObj []) ?o)))
                 = http_method (init (fst (put_spec ?E ?A ''/x'' (JObj []) ?o)))"
      by simp
    with a b show False by simp
  qed
  with a b show ?thesis by blast
qed

text \<open>
  Claim C8, amended. \<^verbatim>\<open>put(path, body, opts)\<close> is \<^verbatim>\<open>post\<close> with \<^verbatim>\<open>'PUT'\<close> as the default
  method and has no code path of its own: for options that carry no method it is
  identical, request and outcome, to \<^verbatim>\<open>post\<close> on the options with the method set to
  \<^verbatim>\<open>'PUT'\<close>; for options that carry a method it is identical to \<^verbatim>\<open>post\<close> on these very
  options, the caller's method taking precedence over \<^verbatim>\<open>'PUT'\<close>.
\<close>

theorem put_is_post_with_default_method:
  "(http_method opts = None \<longrightarrow> put env api apiPath b opts = put_spec env api apiPath b opts)
   \<and> (\<forall>m. http_method opts = Some m \<longrightarrow> put env api apiPath b opts = post env api apiPath b opts)
   \<and> http_method (init (fst (put env api apiPath b opts))) =
       Some (case http_method opts of None \<Rightarrow> ''PUT'' | Some m \<Rightarrow> m)"
proof (intro conjI impI allI)
  assume "http_method opts = None"
  then show "put env api apiPath b opts = put_spec env api apiPath b opts"
    by (simp add: put_def put_spec_def)
next
  fix m assume m: "http_method opts = Some m"
  have "opts\<lparr>http_method := (case http_method opts of None \<Rightarrow> Some ''PUT'' | Some m \<Rightarrow> Some m)\<rparr> = opts"
    by (simp add: m)
  then show "put env api apiPath b opts = post env api apiPath b opts"
    by (simp only: put_def)
next
  show "http_method (init (fst (put env api apiPath b opts))) =
       Some (case http_method opts of None \<Rightarrow> ''PUT'' | Some m \<Rightarrow> m)"
    by (cases "http_method opts") (simp_all add: put_def post_def api_fetch_def Let_def)
qed

theorem put_is_post_with_default_method_witness:
  "put (example_platform (success_response ''{}'')) (example_api None) ''/x'' (JObj []) no_opts
     = put_spec (example_platform (success_response ''{}'')) (example_api None) ''/x'' (JObj []) no_opts
   \<and> http_method (init (fst (put (example_platform (success_response ''{}'')) (example_api None) ''/x''
        (JObj []) no_opts))) = Some ''PUT''
   \<and> put (example_platform (success_response ''{}'')) (example_api None) ''/x'' (JObj [])
        (no_opts\<lparr>http_method := Some ''PATCH''\<rparr>)
     = post (example_platform (success_response ''{}'')) (example_api None) ''/x'' (JObj [])
        (no_opts\<lparr>http_method := Some ''PATCH''\<rparr>)"
proof -
  let ?E = "example_platform (success_response ''{}'')"
  let ?A = "example_api None"
  have a: "http_method no_opts = None" by (simp add: no_opts_def)
  have b: "http_method (no_opts\<lparr>http_method := Some ''PATCH''\<rparr>) = Some ''PATCH''" by simp
  note t = put_is_post_with_default_method [of no_opts ?E ?A "''/x''" "JObj []"]
  note u = put_is_post_with_default_method
    [of "no_opts\<lparr>http_method := Some ''PATCH''\<rparr>" ?E ?A "''/x''" "JObj []"]
  have 1: "put ?E ?A ''/x'' (JObj []) no_opts = put_spec ?E ?A ''/x'' (JObj []) no_opts"
    by (rule mp [OF conjunct1 [OF t] a])
  have 2: "http_method (init (fst (put ?E ?A ''/x'' (JObj []) no_opts))) = Some ''PUT''"
    using conjunct2 [OF conjunct2 [OF t]] by (simp only: a option.case)
  have 3: "put ?E ?A ''/x'' (JObj []) (no_opts\<lparr>http_method := Some ''PATCH''\<rparr>)
     = post ?E ?A ''/x'' (JObj []) (no_opts\<lparr>http_method := Some ''PATCH''\<rparr>)"
    by (rule mp [OF spec [OF conjunct1 [OF conjunct2 [OF u]]] b])
  show ?thesis by (rule conjI [OF 1 conjI [OF 2 3]])
qed

section \<open>The API key header\<close>

text \<open>
  Three requests that the rule "the header is attached exactly when a key was
  configured, with the configured value" does not describe: a client without a key
  whose caller passes \<^verbatim>\<open>X-API-KEY\<close> in the headers of \<^verbatim>\<open>post\<close> sends the header; a
  client with the key \<^verbatim>\<open>secret\<close> sends the caller's value instead; a client configured
  with the empty string as its key sends no header.
\<close>

theorem api_key_header_not_only_from_configuration:
  "cfg_apiKey \<lparr>networkName = None, cfg_apiKey = None, cfg_apiBaseUrl = None\<rparr> = None
   \<and> header_of (init (fst (post (example_platform (success_response ''{}'')) (example_api None)
        ''/x'' (JObj []) (no_opts\<lparr>headers := Some [''X-API-KEY'' \<mapsto> ''caller'']\<rparr>)))) ''X-API-KEY''
       = Some ''caller''
   \<and> header_of (init (fst (post (example_platform (success_response ''{}''))
        (example_api (Some ''secret''))
        ''/x'' (JObj []) (no_opts\<lparr>headers := Some [''X-API-KEY'' \<mapsto> ''caller'']\<rparr>)))) ''X-API-KEY''
       \<noteq> Some ''secret''
   \<and> header_of (init (fst (get (example_platform (success_response ''{}'')) (example_api (Some []))
        ''/x'' Map.empty))) ''X-API-KEY''
       = None"
proof -
  have c: "header_of (no_opts\<lparr>headers := Some [''X-API-KEY'' \<mapsto> ''caller'']\<rparr>) ''X-API-KEY''
             = Some ''caller''"
    by (simp add: header_of_def)
  have e: "key_header (apiKey (example_api (Some []))) ''X-API-KEY'' = None"
    by (simp add: example_api_def constructor_def key_header_def)
  from c e show ?thesis
    by (simp add: header_post header_get)
qed

text \<open>
  Claim C9, amended. A request whose caller supplies no \<^verbatim>\<open>X-API-KEY\<close> header of its own
  carries the header if and only if a non-empty API key was configured at construction,
  and then with the configured value. This covers every request of \<^verbatim>\<open>get\<close> and of the
  operations built on it, the request of \<^verbatim>\<open>postOrder\<close>, and the requests of \<^verbatim>\<open>post\<close> and
  \<^verbatim>\<open>put\<close> whose options hold no \<^verbatim>\<open>X-API-KEY\<close> header.
\<close>

theorem api_key_header_iff_configured:
  "(header_of opts ''X-API-KEY'' = None \<longrightarrow>
      header_of (init (fst (api_fetch env (constructor config) apiPath opts))) ''X-API-KEY''
        = configured_key config
    \<and> header_of (init (fst (post env (constructor config) apiPath b opts))) ''X-API-KEY''
        = configured_key config
    \<and> header_of (init (fst (put env (constructor config) apiPath b opts))) ''X-API-KEY''
        = configured_key config)
   \<and> header_of (init (fst (get env (constructor config) apiPath query))) ''X-API-KEY''
        = configured_key config
   \<and> header_of (init (fst (postOrder ver env (constructor config) f1 order))) ''X-API-KEY''
        = configured_key config
   \<and> header_of (init (fst (getOrder ver env (constructor config) f2 query))) ''X-API-KEY''
        = configured_key config
   \<and> header_of (init (fst (getOrders ver env (constructor config) f3 query page))) ''X-API-KEY''
        = configured_key config
   \<and> header_of (init (fst (getAsset ver env (constructor config) f4 tokenAddress tokenId))) ''X-API-KEY''
        = configured_key config
   \<and> header_of (init (fst (getAssets ver env (constructor config) f5 query page))) ''X-API-KEY''
        = configured_key config
   \<and> header_of (init (fst (getTokens ver env (constructor config) f6 query page))) ''X-API-KEY''
        = configured_key config
   \<and> header_of (init (fst (getBundle ver env (constructor config) f7 slug))) ''X-API-KEY''
        = configured_key config
   \<and> header_of (init (fst (getBundles ver env (constructor config) f8 query page))) ''X-API-KEY''
        = configured_key config"
proof -
  have n: "header_of no_opts ''X-API-KEY'' = None"
    by (simp add: header_of_def no_opts_def)
  have a: "header_of opts ''X-API-KEY'' = None \<longrightarrow>
      header_of (init (fst (api_fetch env (constructor config) apiPath opts))) ''X-API-KEY''
        = configured_key config
    \<and> header_of (init (fst (post env (constructor config) apiPath b opts))) ''X-API-KEY''
        = configured_key config
    \<and> header_of (init (fst (put env (constructor config) apiPath b opts))) ''X-API-KEY''
        = configured_key config"
    by (simp add: header_api_fetch header_post header_put key_header_constructor)
  have g: "header_of (init (fst (get env (constructor config) p q))) ''X-API-KEY''
        = configured_key config" for p q
    by (simp only: header_get key_header_constructor)
  have po: "header_of (init (fst (postOrder ver env (constructor config) f1 order))) ''X-API-KEY''
        = configured_key config"
    by (simp add: fst_ops header_post n key_header_constructor)
  from a g po show ?thesis
    by (simp only: fst_ops)
qed

text \<open>
  A client constructed with the key \<^verbatim>\<open>secret\<close> sends it with \<^verbatim>\<open>getOrders\<close> and with a
  \<^verbatim>\<open>post\<close> without caller headers; a client constructed without a key sends none.
\<close>

theorem api_key_header_iff_configured_witness:
  "header_of (init (fst (getOrders ORDERBOOK_VERSION (example_platform (success_response ''[]''))
       (example_api (Some ''secret'')) Inr Map.empty 1))) ''X-API-KEY'' = Some ''secret''
   \<and> header_of (init (fst (post (example_platform (success_response ''[]''))
       (example_api (Some ''secret'')) ''/x'' (JObj []) no_opts))) ''X-API-KEY'' = Some ''secret''
   \<and> header_of (init (fst (getOrders ORDERBOOK_VERSION (example_platform (success_response ''[]''))
       (example_api None) Inr Map.empty 1))) ''X-API-KEY'' = None"
proof -
  let ?E = "example_platform (success_response ''[]'')"
  let ?c1 = "\<lparr>networkName = None, cfg_apiKey = Some ''secret'', cfg_apiBaseUrl = None\<rparr>"
  let ?c0 = "\<lparr>networkName = None, cfg_apiKey = None, cfg_apiBaseUrl = None\<rparr>"
  let ?n = "Inr :: jsval \<Rightarrow> error + jsval"
  have n: "header_of no_opts ''X-API-KEY'' = None"
    by (simp add: header_of_def no_opts_def)
  have k1: "configured_key ?c1 = Some ''secret''" and k0: "configured_key ?c0 = None"
    by (simp_all add: configured_key_def)
  have 1: "header_of (init (fst (getOrders ORDERBOOK_VERSION ?E (constructor ?c1) ?n Map.empty 1)))
          ''X-API-KEY'' = Some ''secret''"
    using api_key_header_iff_configured
      [where env = ?E and config = ?c1 and ver = ORDERBOOK_VERSION and ?f3.0 = ?n
         and query = Map.empty and page = 1,
       THEN conjunct2, THEN conjunct2, THEN conjunct2, THEN conjunct2, THEN conjunct1] k1
    by simp
  have 2: "header_of (init (fst (post ?E (constructor ?c1) ''/x'' (JObj []) no_opts)))
          ''X-API-KEY'' = Some ''secret''"
    using api_key_header_iff_configured
      [where opts = no_opts and env = ?E and config = ?c1 and apiPath = "''/x''"
         and b = "JObj []", THEN conjunct1] n k1
    by simp
  have 3: "header_of (init (fst (getOrders ORDERBOOK_VERSION ?E (constructor ?c0) ?n Map.empty 1)))
          ''X-API-KEY'' = None"
    using api_key_header_iff_configured
      [where env = ?E and config = ?c0 and ver = ORDERBOOK_VERSION and ?f3.0 = ?n
         and query = Map.empty and page = 1,
       THEN conjunct2, THEN conjunct2, THEN conjunct2, THEN conjunct2, THEN conjunct1] k0
    by simp
  from 1 2 3 show ?thesis
    by (simp only: example_api_def)
qed

text \<open>
  Claim C10. In \<^verbatim>\<open>_fetch\<close> the caller's headers are merged after the API key header:
  every header of the caller is sent with the caller's value, and the API key header is
  sent only for a name the caller left out. So an \<^verbatim>\<open>X-API-KEY\<close> entry in \<^verbatim>\<open>opts.headers\<close>
  overrides the configured key, in \<^verbatim>\<open>_fetch\<close> and in the \<^verbatim>\<open>post\<close> and \<^verbatim>\<open>put\<close> that call it.
\<close>

theorem caller_headers_override_api_key:
  "header_of (init (fst (api_fetch env api apiPath opts))) k =
     (case header_of opts k of None \<Rightarrow> key_header (apiKey api) k | Some v \<Rightarrow> Some v)
   \<and> (header_of opts ''X-API-KEY'' = Some v \<longrightarrow>
        header_of (init (fst (api_fetch env api apiPath opts))) ''X-API-KEY'' = Some v
      \<and> header_of (init (fst (post env api apiPath b opts))) ''X-API-KEY'' = Some v
      \<and> header_of (init (fst (put env api apiPath b opts))) ''X-API-KEY'' = Some v)"
  by (simp add: header_api_fetch header_post header_put)

theorem caller_headers_override_api_key_witness:
  "key_header (apiKey (example_api (Some ''secret''))) ''X-API-KEY'' = Some ''secret''
   \<and> header_of (init (fst (api_fetch (example_platform (success_response ''{}''))
       (example_api (Some ''secret'')) ''/x''
       (no_opts\<lparr>headers := Some [''X-API-KEY'' \<mapsto> ''other'']\<rparr>)))) ''X-API-KEY'' = Some ''other''"
proof -
  let ?E = "example_platform (success_response ''{}'')"
  let ?o = "no_opts\<lparr>headers := Some [''X-API-KEY'' \<mapsto> ''other'']\<rparr>"
  have c: "header_of ?o ''X-API-KEY'' = Some ''other''"
    by (simp add: header_of_def)
  have e: "key_header (apiKey (example_api (Some ''secret''))) ''X-API-KEY'' = Some ''secret''"
    by (simp add: example_api_def constructor_def key_header_def)
  from caller_headers_override_api_key
    [where env = ?E and api = "example_api (Some ''secret'')" and apiPath = "''/x''" and opts = ?o
       and k = "''X-API-KEY''" and v = "''other''"] c e
  show ?thesis by simp
qed

end
